theory Spec2Isabelle
  imports Main "HOL-Library.Word"
begin

section \<open>Python values, exceptions and observable effects\<close>

text \<open>
  The two source files are \<^verbatim>\<open>knxmap.py\<close> (the command line entry point) and
  \<^verbatim>\<open>knxmap/bus/monitor.py\<close> (the bus and group monitor session). Both are thin
  orchestration over modules that are not part of the sources at hand
  (\<^verbatim>\<open>libknxmap\<close>, \<^verbatim>\<open>knxmap.messages\<close>, \<^verbatim>\<open>knxmap.data.constants\<close>,
  \<^verbatim>\<open>knxmap.bus.tunnel\<close>). What those modules provide is taken as a parameter
  (the records \<open>main_env\<close> and \<open>monitor_env\<close>); every call that leaves the two files
  (logging, the transport, the future, the event loop) is recorded, in program order,
  as an \<open>effect\<close>.
\<close>

type_synonym byte = "8 word"

type_synonym sockaddr = "string \<times> nat"

text \<open>The arguments handed to \<^verbatim>\<open>str.format\<close>; the rendering itself is left to Python.\<close>

datatype pyval =
    PyNone
  | PyInt int
  | PyStr string
  | PyBytes "byte list"

datatype exn =
    SystemExit int
  | NameError string
  | AssertionError
  | AttributeError string
  | UnboundLocalError string
  | KeyError byte
  | TypeError
  | InvalidStateError
  | OtherError string

datatype outcome = Returned | Raised exn

text \<open>
  The exit status of the interpreter: \<^verbatim>\<open>sys.exit(n)\<close> raises \<^verbatim>\<open>SystemExit(n)\<close>,
  any other uncaught exception ends the process with status 1.
\<close>

fun exit_status :: "outcome \<Rightarrow> int" where
  "exit_status Returned = 0"
| "exit_status (Raised (SystemExit n)) = n"
| "exit_status (Raised _) = 1"

text \<open>Python truthiness of an optional string (\<^verbatim>\<open>None\<close> and \<^verbatim>\<open>''\<close> are falsy).\<close>

fun truthy_str :: "string option \<Rightarrow> bool" where
  "truthy_str None = False"
| "truthy_str (Some s) = (s \<noteq> [])"

section \<open>KNXnet/IP messages as the parser hands them over\<close>

text \<open>
  The message classes live in \<^verbatim>\<open>knxmap.messages\<close>. Only the attributes that
  \<^verbatim>\<open>monitor.py\<close> reads are kept. Channel ids, sequence counters and cEMI message
  codes are one byte on the wire, KNX addresses two bytes.
\<close>

record tpci_t =
  tpci_type :: nat
  sequence :: nat

record apci_t =
  apci_type :: nat
  apci_data :: "byte list"

record cemi_frame =
  message_code :: byte
  knx_source :: "16 word"
  knx_destination :: "16 word option"
  extended_control_field :: "(string \<times> nat) list option"
  additional_information :: "(string \<times> byte list) list"
  raw_frame :: "byte list option"
  tpci :: "tpci_t option"
  apci :: "apci_t option"

record tunnelling_request =
  communication_channel :: byte
  sequence_counter :: byte
  cemi :: "cemi_frame option"

datatype knx_message =
    KnxConnectRequest sockaddr "string option"
  | KnxConnectResponse byte "string option" "byte option"
  | KnxTunnellingRequest tunnelling_request
  | KnxTunnellingAck byte byte
  | KnxConnectionStateResponse byte byte
  | KnxDisconnectRequest byte
  | KnxDisconnectResponse "byte option"
  | KnxOtherMessage "16 word"

datatype callback = Knx_keep_alive

datatype effect =
    Print_help
  | Basic_config string string
  | Log_error string "pyval list"
  | Log_info string "(string \<times> pyval) list"
  | Trace_outgoing knx_message
  | Trace_incoming knx_message sockaddr
  | Sendto knx_message
  | Transport_close
  | Future_set_result
  | Call_later nat callback
  | Call_knx_tunnel_disconnect
  | Run_group_writer
  | Run_scan
  | Loop_close

section \<open>The command line entry point (knxmap.py)\<close>

text \<open>
  The namespace \<^verbatim>\<open>argparse\<close> returns. \<^verbatim>\<open>level\<close> starts at 2, is raised by
  \<^verbatim>\<open>-v\<close> and set to 0 by \<^verbatim>\<open>-q\<close>, so it is never negative.
  \<^verbatim>\<open>--group-write\<close> and \<^verbatim>\<open>--group-address\<close> default to \<^verbatim>\<open>False\<close>, modelled
  as \<open>None\<close>.
\<close>

record args =
  targets :: "string list"
  port :: int
  workers :: int
  iface :: "string option"
  search_mode :: bool
  search_timeout :: int
  desc_timeout :: int
  desc_retries :: int
  bus_targets :: "string option"
  bus_info :: bool
  bus_monitor_mode :: bool
  group_monitor_mode :: bool
  level :: nat
  bruteforce_key :: bool
  auth_key :: int
  group_write_value :: "string option"
  group_write_address :: "string option"
  routing :: bool

text \<open>
  What \<^verbatim>\<open>main\<close> takes from outside the file: the two constructors imported from
  \<^verbatim>\<open>libknxmap\<close> (either may raise; on success only the \<^verbatim>\<open>.targets\<close> attribute is
  read) and the effective user id.
\<close>

record main_env =
  Targets :: "string list \<Rightarrow> int \<Rightarrow> exn + sockaddr list"
  KnxTargets :: "string option \<Rightarrow> exn + string list"
  geteuid :: nat

text \<open>
  The names bound at module level when \<^verbatim>\<open>main\<close> runs: the imports of lines 2 to 7
  and 18, and the three assignments and definitions of the module itself.
\<close>

definition module_globals :: "string list" where
  "module_globals =
     [''sys'', ''os'', ''argparse'', ''logging'',
      ''KnxMap'', ''Targets'', ''KnxTargets'',
      ''asyncio'', ''LOGGER'', ''ARGS'', ''main'']"

definition lookup_global :: "string \<Rightarrow> exn + unit" where
  "lookup_global n = (if n \<in> set module_globals then Inr () else Inl (NameError n))"

definition levels :: "string list" where
  "levels = [''ERROR'', ''WARN'', ''INFO'', ''DEBUG'']"

definition log_format :: "nat \<Rightarrow> string" where
  "log_format lv =
     (if lv > 2 then ''[%(filename)s:%(lineno)s - %(funcName)20s() ] %(message)s''
      else ''%(message)s'')"

text \<open>
  Lines 120 to 154: constructing the scanner and running it. The name
  \<^verbatim>\<open>KnxScanner\<close> is looked up first; the two coroutines it would offer belong to
  \<^verbatim>\<open>libknxmap\<close> and appear as the effects \<open>Run_group_writer\<close> and \<open>Run_scan\<close>,
  followed by the \<^verbatim>\<open>loop.close()\<close> of the \<^verbatim>\<open>finally\<close> clause.
\<close>

definition run_scanner :: "args \<Rightarrow> effect list \<Rightarrow> outcome \<times> effect list" where
  "run_scanner a fx =
     (case lookup_global ''KnxScanner'' of
        Inl e \<Rightarrow> (Raised e, fx)
      | Inr _ \<Rightarrow>
          (if truthy_str (group_write_value a) \<and> truthy_str (group_write_address a)
           then (Returned, fx @ [Run_group_writer, Loop_close])
           else (Returned, fx @ [Run_scan, Loop_close])))"

definition main :: "main_env \<Rightarrow> args \<Rightarrow> outcome \<times> effect list" where
  "main env a =
     (if targets a = [] \<and> \<not> search_mode a
      then (Raised (SystemExit 1), [Print_help])
      else
        (case Targets env (targets a) (port a) of
           Inl e \<Rightarrow> (Raised e, [])
         | Inr ts \<Rightarrow>
            (case KnxTargets env (bus_targets a) of
               Inl e \<Rightarrow> (Raised e, [])
             | Inr bts \<Rightarrow>
                (let fx = [Basic_config (levels ! (min (level a) (length levels - 1)))
                                        (log_format (level a))]
                 in if search_mode a
                    then
                      (if \<not> truthy_str (iface a)
                       then (Raised (SystemExit 1),
                             fx @ [Log_error ''--search option requires -i/--interface argument'' []])
                       else if geteuid env \<noteq> 0
                       then (Raised (SystemExit 1),
                             fx @ [Log_error ''-i/--interface option requires superuser privileges'' []])
                       else run_scanner a fx)
                    else run_scanner a
                           (fx @ [Log_info ''Scanning {} target(s)''
                                    [(''0'', PyInt (int (length ts)))]])))))"

text \<open>The usage checks of \<^verbatim>\<open>main\<close>: lines 98 and 109 to 116.\<close>

definition passes_usage_checks :: "main_env \<Rightarrow> args \<Rightarrow> bool" where
  "passes_usage_checks env a =
     ((targets a \<noteq> [] \<or> search_mode a) \<and>
      (if search_mode a then truthy_str (iface a) \<and> geteuid env = 0 else True))"

section \<open>The monitor session (knxmap/bus/monitor.py)\<close>

text \<open>
  The attributes of a \<^verbatim>\<open>KnxBusMonitor\<close> that the file reads or writes. The transport
  and the future are asyncio objects; of each only what the file can observe is kept:
  whether \<^verbatim>\<open>close()\<close> was called, and whether the future already holds a result
  (a second \<^verbatim>\<open>set_result\<close> raises \<^verbatim>\<open>InvalidStateError\<close>).
  \<open>self_communication_channel\<close> is \<^verbatim>\<open>self.communication_channel\<close>, unset until a
  CONNECT_RESPONSE assigns it.
\<close>

record monitor =
  group_monitor :: bool
  transport_closed :: bool
  future_done :: bool
  peername :: "sockaddr option"
  sockname :: "sockaddr option"
  tunnel_established :: bool
  self_communication_channel :: "byte option"
  recv_seq :: byte

text \<open>
  Modelled from the spec: the field \<open>recv_seq\<close> above is the receive sequence counter of
  the Session tuple of the data model (an 8-bit counter wrapping modulo 256). It belongs
  to the base class \<^verbatim>\<open>KnxTunnelConnection\<close>, which is not among the sources; no
  statement of \<^verbatim>\<open>monitor.py\<close> reads or writes it.
\<close>

text \<open>
  What the session takes from the modules that are not among the sources: the parser
  (a falsy result is \<open>None\<close>), the lookup tables of \<^verbatim>\<open>knxmap.data.constants\<close> and
  the two address formatters of the message class. The two tables whose names start
  with an underscore reach the file through \<^verbatim>\<open>import *\<close>, which binds such a name
  only if the module exports it: \<open>None\<close> stands for the name being unbound.
  The inherited methods \<^verbatim>\<open>knx_tunnel_disconnect\<close> and \<^verbatim>\<open>knx_keep_alive\<close> are
  defined in \<^verbatim>\<open>knxmap.bus.tunnel\<close>: the call of the first and the scheduling of the
  second are recorded as effects, their bodies are not modelled.
\<close>

record monitor_env =
  parse_message :: "byte list \<Rightarrow> knx_message option"
  CEMI_PRIMITIVES :: "byte \<Rightarrow> string option"
  CEMI_TPCI_TYPES :: "(nat \<Rightarrow> string option) option"
  CEMI_APCI_TYPES :: "(nat \<Rightarrow> string option) option"
  parse_knx_address :: "16 word \<Rightarrow> string"
  parse_knx_group_address :: "16 word \<Rightarrow> string"

fun str_or_none :: "string option \<Rightarrow> pyval" where
  "str_or_none None = PyNone"
| "str_or_none (Some s) = PyStr s"

text \<open>\<^verbatim>\<open>codecs.encode(b, 'hex')\<close>: two lower-case hexadecimal digits per byte.\<close>

definition hex_digit :: "nat \<Rightarrow> byte" where
  "hex_digit n = (if n < 10 then of_nat (48 + n) else of_nat (87 + n))"

definition hex_encode :: "byte list \<Rightarrow> byte list" where
  "hex_encode bs = concat (map (\<lambda>b. [hex_digit (unat b div 16), hex_digit (unat b mod 16)]) bs)"

definition group_format :: string where
  "group_format =
     ''[ chan_id: {chan_id}, seq_no: {seq_no}, message_code: {msg_code}, '' @
     ''source_addr: {src_addr}, dest_addr: {dst_addr}, tpci_type: {tpci_type}, '' @
     ''tpci_seq: {tpci_seq}, apci_type: {apci_type}, apci_data: {apci_data} ]''"

definition bus_format :: string where
  "bus_format =
     ''[ chan_id: {chan_id}, seq_no: {seq_no}, message_code: {msg_code}, '' @
     ''timestamp: {timestamp}, raw_frame: {raw_frame} ]''"

text \<open>
  Lines 92 to 96: \<^verbatim>\<open>dst_addr\<close> is assigned in two of three cases; \<open>None\<close> is the local
  variable left unbound.
\<close>

definition dst_addr_of :: "monitor_env \<Rightarrow> cemi_frame \<Rightarrow> string option" where
  "dst_addr_of env c =
     (case knx_destination c of
        None \<Rightarrow> None
      | Some d \<Rightarrow>
          (if d \<noteq> 0 \<and>
              (case extended_control_field c of
                 None \<Rightarrow> False
               | Some ecf \<Rightarrow> ecf \<noteq> [] \<and>
                   (case map_of ecf ''address_type'' of None \<Rightarrow> False | Some v \<Rightarrow> v \<noteq> 0))
           then Some (parse_knx_group_address env d)
           else if d \<noteq> 0 then Some (parse_knx_address env d)
           else None))"

text \<open>Lines 97 to 109: the keyword arguments are evaluated in the order written.\<close>

definition group_record :: "monitor_env \<Rightarrow> tunnelling_request \<Rightarrow> cemi_frame \<Rightarrow> exn + effect list" where
  "group_record env r c =
     (case dst_addr_of env c of
        None \<Rightarrow> Inl (UnboundLocalError ''dst_addr'')
      | Some dst \<Rightarrow>
     (case CEMI_TPCI_TYPES env of
        None \<Rightarrow> Inl (NameError ''_CEMI_TPCI_TYPES'')
      | Some tpci_types \<Rightarrow>
     (case tpci c of
        None \<Rightarrow> Inl (AttributeError ''tpci_type'')
      | Some t \<Rightarrow>
     (case CEMI_APCI_TYPES env of
        None \<Rightarrow> Inl (NameError ''_CEMI_APCI_TYPES'')
      | Some apci_types \<Rightarrow>
     (case apci c of
        None \<Rightarrow> Inl (AttributeError ''apci_type'')
      | Some ap \<Rightarrow>
          Inr [Log_info group_format
                 [(''chan_id'', PyInt (uint (communication_channel r))),
                  (''seq_no'', PyInt (uint (sequence_counter r))),
                  (''msg_code'', str_or_none (CEMI_PRIMITIVES env (message_code c))),
                  (''src_addr'', PyStr (parse_knx_address env (knx_source c))),
                  (''dst_addr'', PyStr dst),
                  (''tpci_type'', str_or_none (tpci_types (tpci_type t))),
                  (''tpci_seq'', PyInt (int (sequence t))),
                  (''apci_type'', str_or_none (apci_types (apci_type ap))),
                  (''apci_data'', PyBytes (apci_data ap))]])))))"

text \<open>Lines 110 to 117: the bus monitor record.\<close>

definition bus_record :: "monitor_env \<Rightarrow> tunnelling_request \<Rightarrow> cemi_frame \<Rightarrow> exn + effect list" where
  "bus_record env r c =
     (case map_of (additional_information c) ''timestamp'' of
        None \<Rightarrow> Inl TypeError
      | Some ts \<Rightarrow>
     (case raw_frame c of
        None \<Rightarrow> Inl TypeError
      | Some raw \<Rightarrow>
          Inr [Log_info bus_format
                 [(''chan_id'', PyInt (uint (communication_channel r))),
                  (''seq_no'', PyInt (uint (sequence_counter r))),
                  (''msg_code'', str_or_none (CEMI_PRIMITIVES env (message_code c))),
                  (''timestamp'', PyBytes (hex_encode ts)),
                  (''raw_frame'', PyBytes (hex_encode raw))]]))"

text \<open>
  \<^verbatim>\<open>print_message\<close>. Without a cEMI frame the local \<^verbatim>\<open>cemi\<close> stays the empty
  dictionary, and reading its attribute \<^verbatim>\<open>knx_destination\<close> raises.
\<close>

definition print_message :: "monitor_env \<Rightarrow> monitor \<Rightarrow> knx_message \<Rightarrow> exn + effect list" where
  "print_message env s m =
     (case m of
        KnxTunnellingRequest r \<Rightarrow>
          (case cemi r of
             None \<Rightarrow> Inl (AttributeError ''knx_destination'')
           | Some c \<Rightarrow>
               (if group_monitor s then group_record env r c else bus_record env r c))
      | _ \<Rightarrow> Inl AssertionError)"

text \<open>\<^verbatim>\<open>CEMI_PRIMITIVES[knx_message.cemi.message_code] == name\<close>, lines 59 to 61.\<close>

definition primitive_is :: "monitor_env \<Rightarrow> tunnelling_request \<Rightarrow> string \<Rightarrow> exn + bool" where
  "primitive_is env r name =
     (case cemi r of
        None \<Rightarrow> Inl (AttributeError ''message_code'')
      | Some c \<Rightarrow>
          (case CEMI_PRIMITIVES env (message_code c) of
             None \<Rightarrow> Inl (KeyError (message_code c))
           | Some p \<Rightarrow> Inr (p = name)))"

definition ack_wanted :: "monitor_env \<Rightarrow> tunnelling_request \<Rightarrow> exn + bool" where
  "ack_wanted env r =
     (case primitive_is env r ''L_Data.con'' of
        Inl e \<Rightarrow> Inl e
      | Inr True \<Rightarrow> Inr True
      | Inr False \<Rightarrow>
     (case primitive_is env r ''L_Data.ind'' of
        Inl e \<Rightarrow> Inl e
      | Inr True \<Rightarrow> Inr True
      | Inr False \<Rightarrow> primitive_is env r ''L_Busmon.ind''))"

text \<open>\<^verbatim>\<open>self.transport.close(); self.future.set_result(None)\<close>.\<close>

definition close_and_resolve :: "monitor \<Rightarrow> effect list \<Rightarrow> outcome \<times> monitor \<times> effect list" where
  "close_and_resolve s fx =
     (if future_done s
      then (Raised InvalidStateError, s\<lparr>transport_closed := True\<rparr>, fx @ [Transport_close])
      else (Returned, s\<lparr>transport_closed := True, future_done := True\<rparr>,
            fx @ [Transport_close, Future_set_result]))"

definition connection_made :: "monitor \<Rightarrow> sockaddr \<Rightarrow> sockaddr \<Rightarrow> monitor \<times> effect list" where
  "connection_made s peer sock =
     (let connect_request =
            (if group_monitor s then KnxConnectRequest sock None
             else KnxConnectRequest sock (Some ''TUNNEL_BUSMONITOR''))
      in (s\<lparr>transport_closed := False, peername := Some peer, sockname := Some sock\<rparr>,
          [Trace_outgoing connect_request, Sendto connect_request,
           Call_later 50 Knx_keep_alive]))"

definition connect_error_text :: "monitor \<Rightarrow> byte option \<Rightarrow> string \<times> pyval list \<Rightarrow> string \<times> pyval list" where
  "connect_error_text s code generic =
     (if \<not> group_monitor s \<and> code = Some 0x23
      then (''Device does not support BUSMONITOR, try --group-monitor instead'', [])
      else generic)"

definition datagram_received ::
  "monitor_env \<Rightarrow> monitor \<Rightarrow> byte list \<Rightarrow> sockaddr \<Rightarrow> outcome \<times> monitor \<times> effect list" where
  "datagram_received env s data addr =
     (case parse_message env data of
        None \<Rightarrow>
          close_and_resolve s
            [Log_error ''Invalid KNX message: {}'' [PyBytes data], Call_knx_tunnel_disconnect]
      | Some knx_message \<Rightarrow>
          (let fx = [Trace_incoming knx_message addr] in
           case knx_message of
             KnxConnectResponse chan err code \<Rightarrow>
               (if \<not> truthy_str err
                then (Returned,
                      s\<lparr>tunnel_established := True, self_communication_channel := Some chan\<rparr>,
                      fx)
                else
                  (let (txt, fargs) =
                         connect_error_text s code
                           (''Connection setup error: {}'', [str_or_none err])
                   in close_and_resolve s (fx @ [Log_error txt fargs])))
           | KnxTunnellingRequest r \<Rightarrow>
               (case print_message env s knx_message of
                  Inl e \<Rightarrow> (Raised e, s, fx)
                | Inr printed \<Rightarrow>
                    (case ack_wanted env r of
                       Inl e \<Rightarrow> (Raised e, s, fx @ printed)
                     | Inr False \<Rightarrow> (Returned, s, fx @ printed)
                     | Inr True \<Rightarrow>
                         (let tunnelling_ack =
                                KnxTunnellingAck (communication_channel r) (sequence_counter r)
                          in (Returned, s,
                              fx @ printed @
                              [Trace_outgoing tunnelling_ack, Sendto tunnelling_ack]))))
           | KnxTunnellingAck _ _ \<Rightarrow>
               (case print_message env s knx_message of
                  Inl e \<Rightarrow> (Raised e, s, fx)
                | Inr printed \<Rightarrow> (Returned, s, fx @ printed))
           | KnxConnectionStateResponse _ _ \<Rightarrow>
               (Returned, s, fx @ [Call_later 50 Knx_keep_alive])
           | KnxDisconnectRequest _ \<Rightarrow>
               close_and_resolve s
                 (fx @ [Sendto (KnxDisconnectResponse (self_communication_channel s))])
           | KnxDisconnectResponse _ \<Rightarrow> close_and_resolve s fx
           | _ \<Rightarrow> (Returned, s, fx)))"

text \<open>
  The event loop hands the datagrams to \<^verbatim>\<open>datagram_received\<close> one at a time, in
  arrival order; an exception ends the run of the handler that raised it.
\<close>

fun deliver ::
  "monitor_env \<Rightarrow> monitor \<Rightarrow> (byte list \<times> sockaddr) list \<Rightarrow> outcome \<times> monitor \<times> effect list" where
  "deliver env s [] = (Returned, s, [])"
| "deliver env s ((data, addr) # rest) =
     (case datagram_received env s data addr of
        (Raised e, s', fx) \<Rightarrow> (Raised e, s', fx)
      | (Returned, s', fx) \<Rightarrow>
          (case deliver env s' rest of (out, s'', fx') \<Rightarrow> (out, s'', fx @ fx')))"

fun is_sendto :: "effect \<Rightarrow> bool" where
  "is_sendto (Sendto _) = True"
| "is_sendto _ = False"

fun is_log_info :: "effect \<Rightarrow> bool" where
  "is_log_info (Log_info _ _) = True"
| "is_log_info _ = False"

fun is_log_error :: "effect \<Rightarrow> bool" where
  "is_log_error (Log_error _ _) = True"
| "is_log_error _ = False"

fun is_call_later :: "effect \<Rightarrow> bool" where
  "is_call_later (Call_later _ _) = True"
| "is_call_later _ = False"

text \<open>The condition of lines 59 to 61 when the message code is in the table.\<close>

definition acked_primitive :: "monitor_env \<Rightarrow> tunnelling_request \<Rightarrow> bool" where
  "acked_primitive env r =
     (case cemi r of
        None \<Rightarrow> False
      | Some c \<Rightarrow>
          (case CEMI_PRIMITIVES env (message_code c) of
             None \<Rightarrow> False
           | Some p \<Rightarrow> p = ''L_Data.con'' \<or> p = ''L_Data.ind'' \<or> p = ''L_Busmon.ind''))"

section \<open>Concrete inputs\<close>

text \<open>
  A gateway at 192.0.2.10 and the frames it sends, with the messages a parser makes of
  them. Every frame outside the table fails to decode.
\<close>

definition gateway :: sockaddr where
  "gateway = (''192.0.2.10'', 3671)"

definition frame_garbage :: "byte list" where
  "frame_garbage = [0xDE, 0xAD, 0xBE, 0xEF]"

definition frame_connect_refused :: "byte list" where
  "frame_connect_refused = [0x06, 0x10, 0x02, 0x06, 0x00, 0x08, 0x00, 0x23]"

definition frame_busmon_request :: "byte list" where
  "frame_busmon_request =
     [0x06, 0x10, 0x04, 0x20, 0x00, 0x1C, 0x04, 0x09, 0x64, 0x00,
      0x2B, 0x07, 0x03, 0x01, 0x04, 0x04, 0x02, 0x12, 0x34,
      0xBC, 0x11, 0x01, 0x00, 0x01, 0xE1, 0x00, 0x81, 0x3A]"

definition frame_broadcast_request :: "byte list" where
  "frame_broadcast_request =
     [0x06, 0x10, 0x04, 0x20, 0x00, 0x15, 0x04, 0x07, 0x00, 0x00,
      0x29, 0x00, 0xBC, 0xE0, 0x11, 0x01, 0x00, 0x00, 0x01, 0x00, 0x80]"

definition frame_tunnelling_ack :: "byte list" where
  "frame_tunnelling_ack = [0x06, 0x10, 0x04, 0x21, 0x00, 0x0A, 0x04, 0x07, 0x00, 0x00]"

definition frame_state_error :: "byte list" where
  "frame_state_error = [0x06, 0x10, 0x02, 0x08, 0x00, 0x08, 0x07, 0x21]"

definition frame_disconnect_request :: "byte list" where
  "frame_disconnect_request =
     [0x06, 0x10, 0x02, 0x09, 0x00, 0x10, 0x07, 0x00,
      0x08, 0x01, 0xC0, 0x00, 0x02, 0x0A, 0x0E, 0x57]"

definition busmon_request :: tunnelling_request where
  "busmon_request =
     \<lparr>communication_channel = 9, sequence_counter = 100,
      cemi = Some \<lparr>message_code = 0x2B, knx_source = 0, knx_destination = None,
                   extended_control_field = None,
                   additional_information = [(''timestamp'', [0x12, 0x34])],
                   raw_frame = Some [0xBC, 0x11, 0x01, 0x00, 0x01, 0xE1, 0x00, 0x81, 0x3A],
                   tpci = None, apci = None\<rparr>\<rparr>"

definition broadcast_request :: tunnelling_request where
  "broadcast_request =
     \<lparr>communication_channel = 7, sequence_counter = 0,
      cemi = Some \<lparr>message_code = 0x29, knx_source = 0x1101, knx_destination = Some 0,
                   extended_control_field = Some [(''address_type'', 1)],
                   additional_information = [],
                   raw_frame = None,
                   tpci = Some \<lparr>tpci_type = 0, sequence = 0\<rparr>,
                   apci = Some \<lparr>apci_type = 2, apci_data = [0x00]\<rparr>\<rparr>\<rparr>"

definition gateway_env :: monitor_env where
  "gateway_env =
     \<lparr>parse_message = map_of
        [(frame_connect_refused, KnxConnectResponse 0 (Some ''E_CONNECTION_OPTION'') (Some 0x23)),
         (frame_busmon_request, KnxTunnellingRequest busmon_request),
         (frame_broadcast_request, KnxTunnellingRequest broadcast_request),
         (frame_tunnelling_ack, KnxTunnellingAck 7 0),
         (frame_state_error, KnxConnectionStateResponse 7 0x21),
         (frame_disconnect_request, KnxDisconnectRequest 7)],
      CEMI_PRIMITIVES = map_of
        [(0x11, ''L_Data.req''), (0x2E, ''L_Data.con''),
         (0x29, ''L_Data.ind''), (0x2B, ''L_Busmon.ind'')],
      CEMI_TPCI_TYPES = Some (map_of [(0, ''UDP''), (1, ''NDP''), (2, ''UCD''), (3, ''NCD'')]),
      CEMI_APCI_TYPES = Some (map_of [(0, ''A_GroupValue_Read''), (2, ''A_GroupValue_Write'')]),
      parse_knx_address = (\<lambda>w. ''ia''),
      parse_knx_group_address = (\<lambda>w. ''ga'')\<rparr>"

definition bus_session :: monitor where
  "bus_session =
     \<lparr>group_monitor = False, transport_closed = False, future_done = False,
      peername = Some gateway, sockname = Some (''192.0.2.1'', 40000),
      tunnel_established = True, self_communication_channel = Some 7, recv_seq = 0\<rparr>"

definition group_session :: monitor where
  "group_session = bus_session\<lparr>group_monitor := True\<rparr>"

definition unprivileged_env :: main_env where
  "unprivileged_env =
     \<lparr>Targets = (\<lambda>hosts p. Inr (map (\<lambda>h. (h, nat p)) hosts)),
      KnxTargets = (\<lambda>r. Inr []),
      geteuid = 1000\<rparr>"

definition default_args :: args where
  "default_args =
     \<lparr>targets = [], port = 3671, workers = 30, iface = None, search_mode = False,
      search_timeout = 5, desc_timeout = 2, desc_retries = 3, bus_targets = None,
      bus_info = False, bus_monitor_mode = False, group_monitor_mode = False, level = 2,
      bruteforce_key = False, auth_key = 0xFFFFFFFF, group_write_value = None,
      group_write_address = None, routing = False\<rparr>"

section \<open>Auxiliary facts\<close>

lemma KnxScanner_unbound: "lookup_global ''KnxScanner'' = Inl (NameError ''KnxScanner'')"
  by (simp add: lookup_global_def module_globals_def)

lemma run_scanner_raises: "run_scanner a fx = (Raised (NameError ''KnxScanner''), fx)"
  by (simp add: run_scanner_def KnxScanner_unbound)

lemma print_message_single:
  "print_message env s m = Inr fx \<Longrightarrow> \<exists>t kv. fx = [Log_info t kv]"
  by (auto simp: print_message_def group_record_def bus_record_def
           split: knx_message.splits option.splits if_splits)

lemma ack_wanted_eq:
  "ack_wanted env r =
     (case cemi r of
        None \<Rightarrow> Inl (AttributeError ''message_code'')
      | Some c \<Rightarrow>
          (case CEMI_PRIMITIVES env (message_code c) of
             None \<Rightarrow> Inl (KeyError (message_code c))
           | Some p \<Rightarrow> Inr (p = ''L_Data.con'' \<or> p = ''L_Data.ind'' \<or> p = ''L_Busmon.ind'')))"
  by (auto simp: ack_wanted_def primitive_is_def split: option.splits bool.splits sum.splits)

lemma ack_wanted_acked:
  "ack_wanted env r = Inr b \<Longrightarrow> b = acked_primitive env r"
  by (auto simp: ack_wanted_eq acked_primitive_def split: option.splits)

lemma ack_wanted_raises:
  "ack_wanted env r = Inl e \<Longrightarrow> \<not> acked_primitive env r"
  by (auto simp: ack_wanted_eq acked_primitive_def split: option.splits)

lemma tunnelling_request_result:
  assumes "parse_message env data = Some (KnxTunnellingRequest r)"
  shows "datagram_received env s data addr =
     (case print_message env s (KnxTunnellingRequest r) of
        Inl e \<Rightarrow> (Raised e, s, [Trace_incoming (KnxTunnellingRequest r) addr])
      | Inr printed \<Rightarrow>
          (case ack_wanted env r of
             Inl e \<Rightarrow> (Raised e, s, Trace_incoming (KnxTunnellingRequest r) addr # printed)
           | Inr b \<Rightarrow>
               (Returned, s,
                Trace_incoming (KnxTunnellingRequest r) addr # printed @
                (if b then [Trace_outgoing (KnxTunnellingAck (communication_channel r) (sequence_counter r)),
                            Sendto (KnxTunnellingAck (communication_channel r) (sequence_counter r))]
                 else []))))"
  using assms
  by (simp add: datagram_received_def Let_def split: sum.splits bool.splits)

lemma gateway_parse_garbage: "parse_message gateway_env frame_garbage = None"
  by (simp add: gateway_env_def frame_garbage_def frame_connect_refused_def
                frame_busmon_request_def frame_broadcast_request_def frame_tunnelling_ack_def
                frame_state_error_def frame_disconnect_request_def)

lemma gateway_parse_connect_refused:
  "parse_message gateway_env frame_connect_refused =
     Some (KnxConnectResponse 0 (Some ''E_CONNECTION_OPTION'') (Some 0x23))"
  by (simp add: gateway_env_def)

lemma gateway_parse_busmon_request:
  "parse_message gateway_env frame_busmon_request = Some (KnxTunnellingRequest busmon_request)"
  by (simp add: gateway_env_def frame_connect_refused_def frame_busmon_request_def)

lemma gateway_parse_broadcast_request:
  "parse_message gateway_env frame_broadcast_request = Some (KnxTunnellingRequest broadcast_request)"
  by (simp add: gateway_env_def frame_connect_refused_def frame_busmon_request_def
                frame_broadcast_request_def)

lemma gateway_parse_tunnelling_ack:
  "parse_message gateway_env frame_tunnelling_ack = Some (KnxTunnellingAck 7 0)"
  by (simp add: gateway_env_def frame_connect_refused_def frame_busmon_request_def
                frame_broadcast_request_def frame_tunnelling_ack_def)

lemma gateway_parse_state_error:
  "parse_message gateway_env frame_state_error = Some (KnxConnectionStateResponse 7 0x21)"
  by (simp add: gateway_env_def frame_connect_refused_def frame_busmon_request_def
                frame_broadcast_request_def frame_tunnelling_ack_def frame_state_error_def)

lemma gateway_parse_disconnect_request:
  "parse_message gateway_env frame_disconnect_request = Some (KnxDisconnectRequest 7)"
  by (simp add: gateway_env_def frame_connect_refused_def frame_busmon_request_def
                frame_broadcast_request_def frame_tunnelling_ack_def frame_state_error_def
                frame_disconnect_request_def)

lemma busmon_request_printed:
  "print_message gateway_env (bus_session\<lparr>recv_seq := q\<rparr>) (KnxTunnellingRequest busmon_request) =
     Inr [Log_info bus_format
            [(''chan_id'', PyInt 9), (''seq_no'', PyInt 100),
             (''msg_code'', PyStr ''L_Busmon.ind''),
             (''timestamp'', PyBytes [0x31, 0x32, 0x33, 0x34]),
             (''raw_frame'', PyBytes [0x62, 0x63, 0x31, 0x31, 0x30, 0x31, 0x30, 0x30, 0x30, 0x31,
                                      0x65, 0x31, 0x30, 0x30, 0x38, 0x31, 0x33, 0x61])]]"
  by (simp add: print_message_def bus_record_def bus_session_def busmon_request_def
                gateway_env_def hex_encode_def hex_digit_def)

lemma busmon_request_acked: "ack_wanted gateway_env busmon_request = Inr True"
  by (simp add: ack_wanted_eq busmon_request_def gateway_env_def)

lemma print_message_session:
  "print_message env (s\<lparr>self_communication_channel := ch, recv_seq := q\<rparr>) m =
   print_message env s m"
  by (auto simp: print_message_def split: knx_message.splits option.splits)

lemma bus_session_recv_seq: "bus_session\<lparr>recv_seq := 0\<rparr> = bus_session"
  by (simp add: bus_session_def)

lemma busmon_request_received:
  "datagram_received gateway_env (bus_session\<lparr>recv_seq := q\<rparr>) frame_busmon_request gateway =
     (Returned, bus_session\<lparr>recv_seq := q\<rparr>,
      [Trace_incoming (KnxTunnellingRequest busmon_request) gateway,
       Log_info bus_format
            [(''chan_id'', PyInt 9), (''seq_no'', PyInt 100),
             (''msg_code'', PyStr ''L_Busmon.ind''),
             (''timestamp'', PyBytes [0x31, 0x32, 0x33, 0x34]),
             (''raw_frame'', PyBytes [0x62, 0x63, 0x31, 0x31, 0x30, 0x31, 0x30, 0x30, 0x30, 0x31,
                                      0x65, 0x31, 0x30, 0x30, 0x38, 0x31, 0x33, 0x61])],
       Trace_outgoing (KnxTunnellingAck 9 100), Sendto (KnxTunnellingAck 9 100)])"
proof -
  have c: "communication_channel busmon_request = 9" "sequence_counter busmon_request = 100"
    by (simp_all add: busmon_request_def)
  show ?thesis
    by (simp add: tunnelling_request_result [OF gateway_parse_busmon_request]
                  busmon_request_printed busmon_request_acked c)
qed

lemma busmon_request_printed_plain:
  "print_message gateway_env bus_session (KnxTunnellingRequest busmon_request) =
     Inr [Log_info bus_format
            [(''chan_id'', PyInt 9), (''seq_no'', PyInt 100),
             (''msg_code'', PyStr ''L_Busmon.ind''),
             (''timestamp'', PyBytes [0x31, 0x32, 0x33, 0x34]),
             (''raw_frame'', PyBytes [0x62, 0x63, 0x31, 0x31, 0x30, 0x31, 0x30, 0x30, 0x30, 0x31,
                                      0x65, 0x31, 0x30, 0x30, 0x38, 0x31, 0x33, 0x61])]]"
  using busmon_request_printed [of 0] by (simp only: bus_session_recv_seq)

lemma busmon_request_fields:
  "communication_channel busmon_request = 9" "sequence_counter busmon_request = 100"
  by (simp_all add: busmon_request_def)

lemma busmon_request_acked_primitive: "acked_primitive gateway_env busmon_request"
  by (simp add: acked_primitive_def busmon_request_def gateway_env_def)

lemma print_message_no_call_later:
  "print_message env s m = Inr fx \<Longrightarrow> filter is_call_later fx = []"
  by (auto dest!: print_message_single)

lemma close_and_resolve_call_later:
  "filter is_call_later (snd (snd (close_and_resolve s fx))) = filter is_call_later fx"
  by (simp add: close_and_resolve_def)

lemma datagram_received_call_later:
  "filter is_call_later (snd (snd (datagram_received env s data addr))) =
     (case parse_message env data of
        Some (KnxConnectionStateResponse ch st) \<Rightarrow> [Call_later 50 Knx_keep_alive]
      | _ \<Rightarrow> [])"
  by (auto simp: datagram_received_def Let_def close_and_resolve_call_later
                 connect_error_text_def
           split: option.splits knx_message.splits sum.splits bool.splits prod.splits
           dest!: print_message_no_call_later)

section \<open>Properties of the entry point\<close>

text \<open>
  C1. For every argument vector that passes the usage checks, with the two target
  constructors returning, \<^verbatim>\<open>main\<close> ends in a NameError for the name KnxScanner, which
  the module never binds. Whatever the arguments, \<^verbatim>\<open>main\<close> never returns normally and
  neither \<^verbatim>\<open>scan\<close> nor \<^verbatim>\<open>group_writer\<close> is ever run.
\<close>

theorem main_scanner_NameError:
  "(passes_usage_checks env a \<and>
    Targets env (targets a) (port a) = Inr ts \<and>
    KnxTargets env (bus_targets a) = Inr bts
      \<longrightarrow> fst (main env a) = Raised (NameError ''KnxScanner''))
   \<and> fst (main env a) \<noteq> Returned
   \<and> Run_scan \<notin> set (snd (main env a))
   \<and> Run_group_writer \<notin> set (snd (main env a))"
  by (auto simp: main_def passes_usage_checks_def run_scanner_raises Let_def
           split: sum.splits if_splits)

theorem main_scanner_NameError_witness:
  "passes_usage_checks unprivileged_env (default_args\<lparr>targets := [''192.0.2.10'']\<rparr>) \<and>
   main unprivileged_env (default_args\<lparr>targets := [''192.0.2.10'']\<rparr>) =
     (Raised (NameError ''KnxScanner''),
      [Basic_config ''INFO'' ''%(message)s'',
       Log_info ''Scanning {} target(s)'' [(''0'', PyInt 1)]])"
proof -
  let ?a = "default_args\<lparr>targets := [''192.0.2.10'']\<rparr>"
  have u: "passes_usage_checks unprivileged_env ?a"
    by (simp add: passes_usage_checks_def default_args_def)
  have t: "Targets unprivileged_env (targets ?a) (port ?a) = Inr [(''192.0.2.10'', 3671)]"
    by (simp add: unprivileged_env_def default_args_def)
  have k: "KnxTargets unprivileged_env (bus_targets ?a) = Inr []"
    by (simp add: unprivileged_env_def)
  have "fst (main unprivileged_env ?a) = Raised (NameError ''KnxScanner'')"
    using main_scanner_NameError [of unprivileged_env ?a "[(''192.0.2.10'', 3671)]" "[]"] u t k
    by blast
  moreover have "snd (main unprivileged_env ?a) =
      [Basic_config ''INFO'' ''%(message)s'',
       Log_info ''Scanning {} target(s)'' [(''0'', PyInt 1)]]"
    by (simp add: main_def unprivileged_env_def default_args_def run_scanner_raises
                  levels_def log_format_def)
  ultimately show ?thesis using u by (simp add: prod_eq_iff)
qed

text \<open>
  C8, as amended. A search without an interface name, or with one but without superuser
  rights, logs a diagnostic and ends with exit status 1, the same status as the plain
  usage error (no targets and no search), which prints the help text first.
\<close>

theorem search_refusal_exit_status:
  "(search_mode a \<and> \<not> (truthy_str (iface a) \<and> geteuid env = 0) \<and>
    Targets env (targets a) (port a) = Inr ts \<and>
    KnxTargets env (bus_targets a) = Inr bts
      \<longrightarrow> main env a =
            (Raised (SystemExit 1),
             [Basic_config (levels ! (min (level a) (length levels - 1))) (log_format (level a)),
              Log_error (if \<not> truthy_str (iface a)
                         then ''--search option requires -i/--interface argument''
                         else ''-i/--interface option requires superuser privileges'') []])
          \<and> exit_status (fst (main env a)) = 1)
   \<and> (targets a = [] \<and> \<not> search_mode a
      \<longrightarrow> main env a = (Raised (SystemExit 1), [Print_help])
          \<and> exit_status (fst (main env a)) = 1)"
  by (auto simp: main_def Let_def)

theorem search_refusal_exit_status_witness:
  "main unprivileged_env (default_args\<lparr>search_mode := True, iface := Some ''eth0''\<rparr>) =
     (Raised (SystemExit 1),
      [Basic_config ''INFO'' ''%(message)s'',
       Log_error ''-i/--interface option requires superuser privileges'' []])
   \<and> main unprivileged_env default_args = (Raised (SystemExit 1), [Print_help])"
  using search_refusal_exit_status
          [of "default_args\<lparr>search_mode := True, iface := Some ''eth0''\<rparr>"
              unprivileged_env "[]" "[]"]
        search_refusal_exit_status [of default_args unprivileged_env "[]" "[]"]
  by (simp add: unprivileged_env_def default_args_def levels_def log_format_def)

theorem search_refusal_exit_status_counterexample:
  "exit_status (fst (main unprivileged_env (default_args\<lparr>search_mode := True\<rparr>))) = 1
   \<and> exit_status (fst (main unprivileged_env (default_args\<lparr>search_mode := True\<rparr>))) \<noteq> 2
   \<and> exit_status
       (fst (main unprivileged_env (default_args\<lparr>search_mode := True, iface := Some ''eth0''\<rparr>)))
       \<noteq> 2"
  by (simp add: main_def unprivileged_env_def default_args_def)

section \<open>Properties of the monitor session\<close>

text \<open>
  C2, as amended. A datagram that fails to decode ends the session at once: the error is
  logged, the inherited \<^verbatim>\<open>knx_tunnel_disconnect\<close> is called, the transport is closed and
  the pending future is resolved. No count of malformed frames is kept.
\<close>

theorem malformed_datagram_teardown:
  assumes "parse_message env data = None" and "\<not> future_done s"
  shows "datagram_received env s data addr =
           (Returned, s\<lparr>transport_closed := True, future_done := True\<rparr>,
            [Log_error ''Invalid KNX message: {}'' [PyBytes data],
             Call_knx_tunnel_disconnect, Transport_close, Future_set_result])"
  using assms by (simp add: datagram_received_def close_and_resolve_def)

theorem malformed_datagram_teardown_witness:
  "parse_message gateway_env frame_garbage = None \<and> \<not> future_done group_session \<and>
   datagram_received gateway_env group_session frame_garbage gateway =
     (Returned, group_session\<lparr>transport_closed := True, future_done := True\<rparr>,
      [Log_error ''Invalid KNX message: {}'' [PyBytes frame_garbage],
       Call_knx_tunnel_disconnect, Transport_close, Future_set_result])"
proof -
  have f: "\<not> future_done group_session"
    by (simp add: group_session_def bus_session_def)
  show ?thesis
    using malformed_datagram_teardown [OF gateway_parse_garbage f, of gateway]
          gateway_parse_garbage f
    by simp
qed

theorem malformed_datagram_teardown_counterexample:
  "parse_message gateway_env frame_garbage = None \<and>
   \<not> transport_closed bus_session \<and> \<not> future_done bus_session \<and>
   transport_closed (fst (snd (datagram_received gateway_env bus_session frame_garbage gateway))) \<and>
   future_done (fst (snd (datagram_received gateway_env bus_session frame_garbage gateway))) \<and>
   snd (snd (datagram_received gateway_env bus_session frame_garbage gateway)) =
     [Log_error ''Invalid KNX message: {}'' [PyBytes frame_garbage],
      Call_knx_tunnel_disconnect, Transport_close, Future_set_result]"
  by (simp add: datagram_received_def close_and_resolve_def gateway_parse_garbage
                bus_session_def)

text \<open>
  C3, as amended. For every TUNNELLING_REQUEST whose record prints without error, the
  session sends exactly one TUNNELLING_ACK, carrying the request's own channel and
  sequence number, if and only if the cEMI message code names L_Data.con, L_Data.ind or
  L_Busmon.ind, and sends nothing otherwise. Neither the channel nor the sequence number
  is compared with the session: the effects are the same whatever the session's channel
  and receive counter are.
\<close>

theorem tunnelling_request_ack_rule:
  assumes "parse_message env data = Some (KnxTunnellingRequest r)"
      and "print_message env s (KnxTunnellingRequest r) = Inr printed"
  shows "filter is_sendto (snd (snd (datagram_received env s data addr))) =
           (if acked_primitive env r
            then [Sendto (KnxTunnellingAck (communication_channel r) (sequence_counter r))]
            else [])
         \<and> snd (snd (datagram_received env
                        (s\<lparr>self_communication_channel := ch, recv_seq := q\<rparr>) data addr)) =
           snd (snd (datagram_received env s data addr))"
proof -
  obtain t kv where p: "printed = [Log_info t kv]"
    using print_message_single [OF assms(2)] by blast
  have m: "print_message env (s\<lparr>self_communication_channel := ch, recv_seq := q\<rparr>)
             (KnxTunnellingRequest r) = Inr printed"
    using assms(2) by (simp add: print_message_session)
  show ?thesis
  proof (cases "ack_wanted env r")
    case (Inl e)
    then show ?thesis
      using assms(2) m p ack_wanted_raises [OF Inl]
      by (simp add: tunnelling_request_result [OF assms(1)])
  next
    case (Inr b)
    then show ?thesis
      using assms(2) m p ack_wanted_acked [OF Inr]
      by (simp add: tunnelling_request_result [OF assms(1)])
  qed
qed

theorem tunnelling_request_ack_rule_witness:
  "filter is_sendto
     (snd (snd (datagram_received gateway_env bus_session frame_busmon_request gateway))) =
     [Sendto (KnxTunnellingAck 9 100)]
   \<and> snd (snd (datagram_received gateway_env
                  (bus_session\<lparr>self_communication_channel := Some 9, recv_seq := 100\<rparr>)
                  frame_busmon_request gateway)) =
     snd (snd (datagram_received gateway_env bus_session frame_busmon_request gateway))"
  using tunnelling_request_ack_rule
          [where addr = gateway and ch = "Some 9" and q = 100,
           OF gateway_parse_busmon_request busmon_request_printed_plain]
  by (simp only: busmon_request_acked_primitive busmon_request_fields if_True)

theorem tunnelling_request_ack_rule_counterexample:
  "sequence_counter busmon_request \<noteq> recv_seq bus_session \<and>
   sequence_counter busmon_request \<noteq> recv_seq bus_session - 1 \<and>
   self_communication_channel bus_session \<noteq> Some (communication_channel busmon_request) \<and>
   parse_message gateway_env frame_busmon_request = Some (KnxTunnellingRequest busmon_request) \<and>
   filter is_sendto
     (snd (snd (datagram_received gateway_env bus_session frame_busmon_request gateway))) =
     [Sendto (KnxTunnellingAck 9 100)]"
proof -
  have a: "recv_seq bus_session = 0" "self_communication_channel bus_session = Some 7"
    by (simp_all add: bus_session_def)
  have b: "datagram_received gateway_env bus_session frame_busmon_request gateway =
     (Returned, bus_session,
      [Trace_incoming (KnxTunnellingRequest busmon_request) gateway,
       Log_info bus_format
            [(''chan_id'', PyInt 9), (''seq_no'', PyInt 100),
             (''msg_code'', PyStr ''L_Busmon.ind''),
             (''timestamp'', PyBytes [0x31, 0x32, 0x33, 0x34]),
             (''raw_frame'', PyBytes [0x62, 0x63, 0x31, 0x31, 0x30, 0x31, 0x30, 0x30, 0x30, 0x31,
                                      0x65, 0x31, 0x30, 0x30, 0x38, 0x31, 0x33, 0x61])],
       Trace_outgoing (KnxTunnellingAck 9 100), Sendto (KnxTunnellingAck 9 100)])"
    using busmon_request_received [of 0] by (simp only: bus_session_recv_seq)
  show ?thesis
    by (simp add: a b busmon_request_fields gateway_parse_busmon_request)
qed

text \<open>
  C4, as amended. A TUNNELLING_REQUEST that is handled without error leaves the session
  as it was and emits exactly one monitor record; nothing distinguishes a duplicate, so
  the same datagram delivered a second time emits the same record, and the same
  acknowledgement, again.
\<close>

theorem duplicate_request_printed_again:
  assumes "parse_message env data = Some (KnxTunnellingRequest r)"
      and "datagram_received env s data addr = (Returned, s', fx)"
  shows "s' = s \<and> length (filter is_log_info fx) = 1 \<and>
         deliver env s [(data, addr), (data, addr)] = (Returned, s, fx @ fx)"
proof -
  have s: "s' = s"
    using assms(2)
    by (auto simp: tunnelling_request_result [OF assms(1)] split: sum.splits)
  have l: "length (filter is_log_info fx) = 1"
    using assms(2)
    by (auto simp: tunnelling_request_result [OF assms(1)]
             split: sum.splits dest!: print_message_single)
  show ?thesis
    using s l assms(2) by simp
qed

theorem duplicate_request_printed_again_witness:
  "length (filter is_log_info
     (snd (snd (datagram_received gateway_env bus_session frame_busmon_request gateway)))) = 1 \<and>
   deliver gateway_env bus_session
     [(frame_busmon_request, gateway), (frame_busmon_request, gateway)] =
     (Returned, bus_session,
      snd (snd (datagram_received gateway_env bus_session frame_busmon_request gateway)) @
      snd (snd (datagram_received gateway_env bus_session frame_busmon_request gateway)))"
proof -
  obtain fx where r:
    "datagram_received gateway_env bus_session frame_busmon_request gateway =
       (Returned, bus_session, fx)"
    using busmon_request_received [of 0] by (simp only: bus_session_recv_seq)
  show ?thesis
    using duplicate_request_printed_again [OF gateway_parse_busmon_request r]
    by (simp only: r snd_conv)
qed

theorem duplicate_request_printed_again_counterexample:
  "sequence_counter busmon_request = recv_seq (bus_session\<lparr>recv_seq := 101\<rparr>) - 1 \<and>
   length (filter is_log_info
     (snd (snd (datagram_received gateway_env (bus_session\<lparr>recv_seq := 101\<rparr>)
                  frame_busmon_request gateway)))) = 1 \<and>
   length (filter is_log_info
     (snd (snd (deliver gateway_env bus_session
                  [(frame_busmon_request, gateway), (frame_busmon_request, gateway)])))) = 2"
proof -
  have a: "sequence_counter busmon_request = recv_seq (bus_session\<lparr>recv_seq := 101\<rparr>) - 1"
    by (simp add: busmon_request_fields)
  have b: "length (filter is_log_info
     (snd (snd (datagram_received gateway_env (bus_session\<lparr>recv_seq := 101\<rparr>)
                  frame_busmon_request gateway)))) = 1"
    by (simp add: busmon_request_received)
  have r: "datagram_received gateway_env bus_session frame_busmon_request gateway =
       datagram_received gateway_env (bus_session\<lparr>recv_seq := 0\<rparr>) frame_busmon_request gateway"
    by (simp only: bus_session_recv_seq)
  have c: "length (filter is_log_info
     (snd (snd (deliver gateway_env bus_session
                  [(frame_busmon_request, gateway), (frame_busmon_request, gateway)])))) = 2"
    by (simp add: r busmon_request_received)
  show ?thesis using a b c by blast
qed

text \<open>
  C5, as amended. When a bus monitor session (BUSMONITOR layer requested) receives a
  CONNECT_RESPONSE carrying an error with code 0x23 while its future is pending, it logs
  the text \<^verbatim>\<open>Device does not support BUSMONITOR, try --group-monitor instead\<close>,
  closes its transport and resolves its future, which ends the session. Any other error,
  and the same code in a group monitor session, is logged as
  \<^verbatim>\<open>Connection setup error: \<close> followed by the error, with the same teardown.
\<close>

theorem connect_refused_teardown:
  assumes "parse_message env data = Some (KnxConnectResponse chan err code)"
      and "truthy_str err" and "\<not> future_done s"
  shows "datagram_received env s data addr =
           (Returned, s\<lparr>transport_closed := True, future_done := True\<rparr>,
            [Trace_incoming (KnxConnectResponse chan err code) addr,
             (if \<not> group_monitor s \<and> code = Some 0x23
              then Log_error ''Device does not support BUSMONITOR, try --group-monitor instead'' []
              else Log_error ''Connection setup error: {}'' [str_or_none err]),
             Transport_close, Future_set_result])"
  using assms
  by (simp add: datagram_received_def close_and_resolve_def connect_error_text_def)

theorem connect_refused_teardown_witness:
  "datagram_received gateway_env bus_session frame_connect_refused gateway =
     (Returned, bus_session\<lparr>transport_closed := True, future_done := True\<rparr>,
      [Trace_incoming (KnxConnectResponse 0 (Some ''E_CONNECTION_OPTION'') (Some 0x23)) gateway,
       Log_error ''Device does not support BUSMONITOR, try --group-monitor instead'' [],
       Transport_close, Future_set_result])
   \<and> datagram_received gateway_env group_session frame_connect_refused gateway =
     (Returned, group_session\<lparr>transport_closed := True, future_done := True\<rparr>,
      [Trace_incoming (KnxConnectResponse 0 (Some ''E_CONNECTION_OPTION'') (Some 0x23)) gateway,
       Log_error ''Connection setup error: {}'' [PyStr ''E_CONNECTION_OPTION''],
       Transport_close, Future_set_result])"
proof -
  have t: "truthy_str (Some ''E_CONNECTION_OPTION'')" by simp
  have b: "\<not> future_done bus_session" "\<not> group_monitor bus_session"
    by (simp_all add: bus_session_def)
  have g: "\<not> future_done group_session" "group_monitor group_session"
    by (simp_all add: group_session_def bus_session_def)
  show ?thesis
    using connect_refused_teardown [OF gateway_parse_connect_refused t b(1), of gateway]
          connect_refused_teardown [OF gateway_parse_connect_refused t g(1), of gateway]
    by (simp add: b g)
qed

theorem connect_refused_teardown_counterexample:
  "\<not> group_monitor bus_session \<and>
   parse_message gateway_env frame_connect_refused =
     Some (KnxConnectResponse 0 (Some ''E_CONNECTION_OPTION'') (Some 0x23)) \<and>
   filter is_log_error
     (snd (snd (datagram_received gateway_env bus_session frame_connect_refused gateway))) =
     [Log_error ''Device does not support BUSMONITOR, try --group-monitor instead'' []] \<and>
   Log_error ''device does not support bus monitor; try group monitor'' [] \<notin>
     set (snd (snd (datagram_received gateway_env bus_session frame_connect_refused gateway)))"
proof -
  have b: "\<not> group_monitor bus_session" "\<not> future_done bus_session"
    by (simp_all add: bus_session_def)
  show ?thesis
    by (simp add: datagram_received_def close_and_resolve_def connect_error_text_def
                  gateway_parse_connect_refused b)
qed

text \<open>
  C6. Every inbound TUNNELLING_ACK is handed to \<^verbatim>\<open>print_message\<close>, whose first
  statement asserts that the message is a tunnelling request: the assertion fails, the
  handler ends with AssertionError right after tracing the message, and no record is
  printed.
\<close>

theorem tunnelling_ack_assertion:
  assumes "parse_message env data = Some (KnxTunnellingAck chan sq)"
  shows "print_message env s (KnxTunnellingAck chan sq) = Inl AssertionError \<and>
         datagram_received env s data addr =
           (Raised AssertionError, s, [Trace_incoming (KnxTunnellingAck chan sq) addr])"
  using assms by (simp add: datagram_received_def print_message_def)

theorem tunnelling_ack_assertion_witness:
  "parse_message gateway_env frame_tunnelling_ack = Some (KnxTunnellingAck 7 0) \<and>
   datagram_received gateway_env group_session frame_tunnelling_ack gateway =
     (Raised AssertionError, group_session, [Trace_incoming (KnxTunnellingAck 7 0) gateway])"
  using tunnelling_ack_assertion [OF gateway_parse_tunnelling_ack, of group_session gateway]
        gateway_parse_tunnelling_ack
  by simp

text \<open>
  C7, as amended. \<^verbatim>\<open>connection_made\<close> schedules the keep-alive once, 50 seconds
  ahead. \<^verbatim>\<open>datagram_received\<close> schedules it again, 50 seconds ahead, on every
  CONNECTIONSTATE_RESPONSE, whatever its status, and leaves the session as it was; no
  other datagram schedules anything.
\<close>

theorem keep_alive_rescheduling:
  "filter is_call_later (snd (connection_made s peer sock)) = [Call_later 50 Knx_keep_alive]
   \<and> (parse_message env data = Some (KnxConnectionStateResponse chan status)
        \<longrightarrow> datagram_received env s data addr =
              (Returned, s,
               [Trace_incoming (KnxConnectionStateResponse chan status) addr,
                Call_later 50 Knx_keep_alive]))
   \<and> (filter is_call_later (snd (snd (datagram_received env s data addr))) \<noteq> []
        \<longrightarrow> (\<exists>c st. parse_message env data = Some (KnxConnectionStateResponse c st)))"
proof -
  have a: "filter is_call_later (snd (connection_made s peer sock)) =
             [Call_later 50 Knx_keep_alive]"
    by (simp add: connection_made_def Let_def)
  have b: "parse_message env data = Some (KnxConnectionStateResponse chan status)
        \<longrightarrow> datagram_received env s data addr =
              (Returned, s,
               [Trace_incoming (KnxConnectionStateResponse chan status) addr,
                Call_later 50 Knx_keep_alive])"
    by (simp add: datagram_received_def)
  have c: "filter is_call_later (snd (snd (datagram_received env s data addr))) \<noteq> []
        \<longrightarrow> (\<exists>c st. parse_message env data = Some (KnxConnectionStateResponse c st))"
    by (auto simp: datagram_received_call_later split: option.splits knx_message.splits)
  show ?thesis using a b c by blast
qed

theorem keep_alive_rescheduling_witness:
  "datagram_received gateway_env bus_session frame_state_error gateway =
     (Returned, bus_session,
      [Trace_incoming (KnxConnectionStateResponse 7 0x21) gateway,
       Call_later 50 Knx_keep_alive])
   \<and> filter is_call_later
        (snd (snd (datagram_received gateway_env bus_session frame_tunnelling_ack gateway))) = []"
  using keep_alive_rescheduling
          [of bus_session gateway gateway gateway_env frame_state_error 7 "0x21" gateway]
        keep_alive_rescheduling
          [of bus_session gateway gateway gateway_env frame_tunnelling_ack 7 "0x21" gateway]
        gateway_parse_state_error gateway_parse_tunnelling_ack
  by auto

theorem keep_alive_rescheduling_counterexample:
  "parse_message gateway_env frame_state_error = Some (KnxConnectionStateResponse 7 0x21) \<and>
   (0x21 :: byte) \<noteq> 0 \<and>
   datagram_received gateway_env bus_session frame_state_error gateway =
     (Returned, bus_session,
      [Trace_incoming (KnxConnectionStateResponse 7 0x21) gateway,
       Call_later 50 Knx_keep_alive])"
  by (simp add: datagram_received_def gateway_parse_state_error)

text \<open>
  C9. A DISCONNECT_REQUEST received by a session whose completion future is still
  pending is answered by a DISCONNECT_RESPONSE carrying the session's own communication
  channel; the transport is then closed and the future resolved.
\<close>

theorem disconnect_request_closes:
  assumes "parse_message env data = Some (KnxDisconnectRequest chan)"
      and "\<not> future_done s"
  shows "datagram_received env s data addr =
           (Returned, s\<lparr>transport_closed := True, future_done := True\<rparr>,
            [Trace_incoming (KnxDisconnectRequest chan) addr,
             Sendto (KnxDisconnectResponse (self_communication_channel s)),
             Transport_close, Future_set_result])"
  using assms by (simp add: datagram_received_def close_and_resolve_def)

theorem disconnect_request_closes_witness:
  "datagram_received gateway_env bus_session frame_disconnect_request gateway =
     (Returned, bus_session\<lparr>transport_closed := True, future_done := True\<rparr>,
      [Trace_incoming (KnxDisconnectRequest 7) gateway,
       Sendto (KnxDisconnectResponse (Some 7)),
       Transport_close, Future_set_result])"
proof -
  have b: "\<not> future_done bus_session" "self_communication_channel bus_session = Some 7"
    by (simp_all add: bus_session_def)
  show ?thesis
    using disconnect_request_closes [OF gateway_parse_disconnect_request b(1), of gateway]
    by (simp add: b(2))
qed

text \<open>
  C10. \<^verbatim>\<open>dst_addr\<close> is assigned exactly when the cEMI frame has a destination
  different from zero. In group monitor mode, a tunnelling request whose cEMI frame has
  no destination, or destination zero, makes \<^verbatim>\<open>print_message\<close> raise
  UnboundLocalError for \<^verbatim>\<open>dst_addr\<close>; \<^verbatim>\<open>datagram_received\<close> ends with that
  error, having printed no record and sent no acknowledgement.
\<close>

theorem group_record_unbound_dst_addr:
  "(dst_addr_of env c \<noteq> None \<longleftrightarrow> (\<exists>d. knx_destination c = Some d \<and> d \<noteq> 0))
   \<and> (group_monitor s \<and> cemi r = Some c \<and>
       (knx_destination c = None \<or> knx_destination c = Some 0)
        \<longrightarrow> print_message env s (KnxTunnellingRequest r) = Inl (UnboundLocalError ''dst_addr'')
            \<and> (parse_message env data = Some (KnxTunnellingRequest r)
                 \<longrightarrow> datagram_received env s data addr =
                       (Raised (UnboundLocalError ''dst_addr''), s,
                        [Trace_incoming (KnxTunnellingRequest r) addr])))"
proof -
  have a: "dst_addr_of env c \<noteq> None \<longleftrightarrow> (\<exists>d. knx_destination c = Some d \<and> d \<noteq> 0)"
    by (auto simp: dst_addr_of_def split: option.splits)
  have b: "print_message env s (KnxTunnellingRequest r) = Inl (UnboundLocalError ''dst_addr'')"
    if "group_monitor s" "cemi r = Some c" "knx_destination c = None \<or> knx_destination c = Some 0"
    using that by (auto simp: print_message_def group_record_def dst_addr_of_def)
  show ?thesis
    using a b by (auto simp: tunnelling_request_result)
qed

theorem group_record_unbound_dst_addr_witness:
  "parse_message gateway_env frame_broadcast_request = Some (KnxTunnellingRequest broadcast_request) \<and>
   datagram_received gateway_env group_session frame_broadcast_request gateway =
     (Raised (UnboundLocalError ''dst_addr''), group_session,
      [Trace_incoming (KnxTunnellingRequest broadcast_request) gateway])"
proof -
  obtain c where c: "cemi broadcast_request = Some c" "knx_destination c = Some 0"
    by (simp add: broadcast_request_def)
  have g: "group_monitor group_session"
    by (simp add: group_session_def)
  show ?thesis
    using group_record_unbound_dst_addr
            [of gateway_env c group_session broadcast_request frame_broadcast_request gateway]
          c g gateway_parse_broadcast_request
    by simp
qed

end
